theory Spec2Isabelle
  imports Complex_Main "HOL-Library.Word"
begin

section \<open>The browser: blobs, object URLs, textures and their loads\<close>

text \<open>
  The program is one React module, \<^verbatim>\<open>src/index.jsx\<close>: the component
  \<^verbatim>\<open>ExtrudedImageBox\<close> (the preview) and the component \<^verbatim>\<open>App\<close> with the handlers
  \<^verbatim>\<open>handleFile\<close> and \<^verbatim>\<open>handleDownload\<close>. JavaScript runs it on one thread, one event
  handler or callback at a time, so the program is modelled as a function from an event
  and a state to the next state. The state has three parts: what the browser keeps (object
  URLs, texture objects, image loads in flight, files handed to the user), the state hooks
  of \<^verbatim>\<open>App\<close>, and the refs of the mounted \<^verbatim>\<open>ExtrudedImageBox\<close>.
\<close>

type_synonym byte = "8 word"

record blob =
  blob_bytes :: "byte list"
  blob_type :: string

text \<open>A \<^verbatim>\<open>File\<close> of the file input is a blob.\<close>

type_synonym js_file = blob

text \<open>
  \<^verbatim>\<open>URL.createObjectURL\<close> returns a new URL string on every call. The string is opaque
  and never empty; it is modelled by the number of the call that made it. The browser keeps
  a store from object URLs to their blobs (\<^verbatim>\<open>object_urls\<close>); an entry stays there until
  \<^verbatim>\<open>URL.revokeObjectURL\<close> removes it or the document is unloaded.
\<close>

datatype url = ObjectURL nat

datatype tex_filter = LinearMipmapLinearFilter | LinearFilter

text \<open>
  A \<^verbatim>\<open>THREE.Texture\<close> object. \<^verbatim>\<open>tex_image\<close> tells whether the decoded image has been
  attached to it, which the loader does when the decode completes. Texture objects live in
  a heap, the list \<^verbatim>\<open>textures\<close>; a reference to one is its index there.
\<close>

record tex_obj =
  tex_src :: url
  tex_image :: bool
  tex_minFilter :: tex_filter

text \<open>
  The success callback an image load was started with: the one of the preview's effect
  (lines 24-27), or none (the loads of \<^verbatim>\<open>handleDownload\<close>, lines 91 and 98).
\<close>

datatype on_load = PreviewOnLoad | NoOnLoad

record browser =
  object_urls :: "url \<rightharpoonup> blob"
  next_url :: nat
  textures :: "tex_obj list"
  pending :: "(nat \<times> on_load) list"
  downloads :: "(url \<times> string) list"

definition createObjectURL :: "blob \<Rightarrow> browser \<Rightarrow> url \<times> browser" where
  "createObjectURL bl b =
     (ObjectURL (next_url b),
      b\<lparr>object_urls := (object_urls b)(ObjectURL (next_url b) \<mapsto> bl),
        next_url := Suc (next_url b)\<rparr>)"

text \<open>
  \<^verbatim>\<open>new THREE.TextureLoader().load(url, onLoad)\<close>: a new texture object is made and
  returned at once, with no image yet, and the decode of the image starts. The decode
  completes in a later task (the event \<^verbatim>\<open>TextureLoaded\<close> below).
\<close>

definition TextureLoader_load :: "url \<Rightarrow> on_load \<Rightarrow> browser \<Rightarrow> nat \<times> browser" where
  "TextureLoader_load u cb b =
     (length (textures b),
      b\<lparr>textures := textures b @
           [\<lparr>tex_src = u, tex_image = False, tex_minFilter = LinearMipmapLinearFilter\<rparr>],
        pending := pending b @ [(length (textures b), cb)]\<rparr>)"

section \<open>Materials\<close>

text \<open>
  A material descriptor: the parameters \<^verbatim>\<open>new THREE.MeshStandardMaterial({color, map})\<close>
  is given. \<^verbatim>\<open>mat_color = None\<close> when no colour is passed; \<^verbatim>\<open>mat_map = None\<close> when
  no map or \<^verbatim>\<open>null\<close> is passed, otherwise the reference of the texture.
\<close>

record material =
  mat_color :: "string option"
  mat_map :: "nat option"

definition MeshStandardMaterial :: "string option \<Rightarrow> nat option \<Rightarrow> material" where
  "MeshStandardMaterial c m = \<lparr>mat_color = c, mat_map = m\<rparr>"

text \<open>
  The callback of \<^verbatim>\<open>useMemo\<close> in \<^verbatim>\<open>ExtrudedImageBox\<close> (lines 34-53), as a function of
  the three values it reads: \<^verbatim>\<open>texture.current\<close>, \<^verbatim>\<open>sideColor\<close> and \<^verbatim>\<open>backMode\<close>.
  Order of the result: right, left, top, bottom, front, back.
\<close>

definition materials :: "nat option \<Rightarrow> string \<Rightarrow> string \<Rightarrow> material list" where
  "materials texture_current sideColor backMode =
     (let colorMat = MeshStandardMaterial (Some sideColor) None;
          frontMat = (if texture_current \<noteq> None
                      then MeshStandardMaterial None texture_current
                      else MeshStandardMaterial (Some ''#fff'') None);
          backMat = (if backMode = ''image'' \<and> texture_current \<noteq> None
                     then MeshStandardMaterial None texture_current
                     else MeshStandardMaterial (Some sideColor) None)
      in [colorMat, colorMat, colorMat, colorMat, frontMat, backMat])"

section \<open>The application state and the upload handler\<close>

record app =
  imageUrl :: "url option"
  extrusion :: real
  sideColor :: string
  backMode :: string

text \<open>
  \<^verbatim>\<open>handleFile\<close> (lines 74-77). \<^verbatim>\<open>e.target.files[0]\<close> is \<^verbatim>\<open>undefined\<close> when the list
  of files is empty, and then nothing is done.
\<close>

definition handleFile :: "js_file list \<Rightarrow> app \<times> browser \<Rightarrow> app \<times> browser" where
  "handleFile files ab =
     (case files of
        [] \<Rightarrow> ab
      | f # _ \<Rightarrow> (let (u, b') = createObjectURL f (snd ab)
                  in ((fst ab)\<lparr>imageUrl := Some u\<rparr>, b')))"

section \<open>The export handler\<close>

record scene =
  scene_depth :: real
  scene_materials :: "material list"

text \<open>
  What the exporter's completion callback receives: an \<^verbatim>\<open>ArrayBuffer\<close>, or a document
  object, given here by the bytes of its \<^verbatim>\<open>JSON.stringify\<close> text.
\<close>

datatype gltf = ArrayBuffer "byte list" | Document "byte list"

text \<open>
  \<^verbatim>\<open>GLTFExporter\<close> is a library of three.js, outside the repository, so it is a parameter
  of the model: a function from the scene it is handed, and the texture objects as they are
  at the moment \<^verbatim>\<open>parse\<close> is called, to the value it gives the completion callback
  (\<^verbatim>\<open>None\<close> when it never calls back).
\<close>

type_synonym exporter = "scene \<Rightarrow> tex_obj list \<Rightarrow> gltf option"

text \<open>\<^verbatim>\<open>imageUrl ? new THREE.TextureLoader().load(imageUrl) : null\<close> (lines 90-92, 97-99).\<close>

definition load_map :: "url option \<Rightarrow> browser \<Rightarrow> nat option \<times> browser" where
  "load_map iu b =
     (case iu of
        Some u \<Rightarrow> (let (t, b') = TextureLoader_load u NoOnLoad b in (Some t, b'))
      | None \<Rightarrow> (None, b))"

text \<open>
  Lines 81-105 of \<^verbatim>\<open>handleDownload\<close>: the scene with its six materials, built in the
  order of the array literal, and the browser after the loads it started.
\<close>

definition handleDownload_scene :: "app \<Rightarrow> browser \<Rightarrow> scene \<times> browser" where
  "handleDownload_scene a b =
     (let side = MeshStandardMaterial (Some (sideColor a)) None;
          (fmap, b1) = load_map (imageUrl a) b;
          front = MeshStandardMaterial (Some ''#fff'') fmap;
          (back, b2) =
            (if backMode a = ''image''
             then (let (bmap, b') = load_map (imageUrl a) b1
                   in (MeshStandardMaterial (Some ''#fff'') bmap, b'))
             else (MeshStandardMaterial (Some (sideColor a)) None, b1))
      in (\<lparr>scene_depth = extrusion a,
           scene_materials = [side, side, side, side, front, back]\<rparr>, b2))"

text \<open>
  The completion callback (lines 109-118): the result is wrapped in a blob, an object URL
  is made for it, and a click on an anchor with that URL hands the file to the user.
\<close>

definition gltf_bytes :: "gltf \<Rightarrow> byte list" where
  "gltf_bytes g = (case g of ArrayBuffer bs \<Rightarrow> bs | Document txt \<Rightarrow> txt)"

definition onDone :: "gltf \<Rightarrow> browser \<Rightarrow> browser" where
  "onDone g b =
     (let bl = \<lparr>blob_bytes = gltf_bytes g, blob_type = ''application/octet-stream''\<rparr>;
          (u, b') = createObjectURL bl b
      in b'\<lparr>downloads := downloads b' @ [(u, ''extruded-image.glb'')]\<rparr>)"

definition handleDownload :: "exporter \<Rightarrow> app \<Rightarrow> browser \<Rightarrow> browser" where
  "handleDownload ex a b =
     (let (sc, b1) = handleDownload_scene a b
      in case ex sc (textures b1) of None \<Rightarrow> b1 | Some g \<Rightarrow> onDone g b1)"


section \<open>The preview component and the events\<close>

text \<open>
  \<^verbatim>\<open>React.useMemo\<close>: the memo cell holds the dependencies and the value of the last
  computation. A call during a render returns the held value when the dependencies are
  the same, and otherwise the value computed now, which it keeps with its dependencies.
\<close>

definition useMemo :: "('d \<times> 'v) option \<Rightarrow> 'd \<Rightarrow> 'v \<Rightarrow> 'v \<times> ('d \<times> 'v) option" where
  "useMemo cell deps v =
     (case cell of
        None \<Rightarrow> (v, Some (deps, v))
      | Some (d, old) \<Rightarrow> if d = deps then (old, cell) else (v, Some (deps, v)))"

text \<open>
  The mounted \<^verbatim>\<open>ExtrudedImageBox\<close>: its ref \<^verbatim>\<open>texture\<close>, the value of \<^verbatim>\<open>image\<close> its
  effect (lines 19-31) last ran for, and the memo cell of its materials (lines 34-53) with
  the dependencies \<^verbatim>\<open>[texture.current, sideColor, backMode]\<close>.
\<close>

record box =
  texture_current :: "nat option"
  effect_image :: "url option"
  memo :: "((nat option \<times> string \<times> string) \<times> material list) option"

record system =
  sys_app :: app
  sys_box :: "box option"
  sys_browser :: browser

text \<open>
  The call of \<^verbatim>\<open>useMemo\<close> in a render of the box with the props \<^verbatim>\<open>sideColor\<close> and
  \<^verbatim>\<open>backMode\<close> (here \<^verbatim>\<open>sc\<close> and \<^verbatim>\<open>bm\<close>): the array it returns and the memo cell after
  it.
\<close>

definition box_useMemo ::
  "box \<Rightarrow> string \<Rightarrow> string
     \<Rightarrow> material list \<times> ((nat option \<times> string \<times> string) \<times> material list) option" where
  "box_useMemo bx sc bm =
     useMemo (memo bx) (texture_current bx, sc, bm) (materials (texture_current bx) sc bm)"

text \<open>
  A render of \<^verbatim>\<open>App\<close>. The box is rendered only when \<^verbatim>\<open>imageUrl\<close> is set (line 165),
  and it mounts with an empty ref and an empty memo cell. In a render the memo gives the
  materials of the mesh; after it the effect runs if the box has just mounted or \<^verbatim>\<open>image\<close>
  differs from the last run, and starts a load with the preview's callback.
\<close>

definition render :: "system \<Rightarrow> system" where
  "render s =
     (case imageUrl (sys_app s) of
        None \<Rightarrow> s\<lparr>sys_box := None\<rparr>
      | Some u \<Rightarrow>
          (let bx = (case sys_box s of
                       None \<Rightarrow> \<lparr>texture_current = None, effect_image = None, memo = None\<rparr>
                     | Some bx \<Rightarrow> bx);
               bx1 = bx\<lparr>memo := snd (box_useMemo bx (sideColor (sys_app s)) (backMode (sys_app s)))\<rparr>
           in if effect_image bx1 = Some u then s\<lparr>sys_box := Some bx1\<rparr>
              else (let (t, b') = TextureLoader_load u PreviewOnLoad (sys_browser s)
                    in s\<lparr>sys_box := Some (bx1\<lparr>effect_image := Some u\<rparr>),
                         sys_browser := b'\<rparr>)))"

text \<open>
  The decode of texture \<^verbatim>\<open>t\<close> completes: the loader attaches the image and calls the
  success callback. The preview's callback (lines 24-27) sets the filter and stores the
  texture in the ref; it checks nothing, and writing a ref causes no render.
\<close>

definition texture_loaded :: "nat \<Rightarrow> system \<Rightarrow> system" where
  "texture_loaded t s =
     (case map_of (pending (sys_browser s)) t of
        None \<Rightarrow> s
      | Some cb \<Rightarrow>
          (let b = sys_browser s;
               b1 = b\<lparr>pending := filter (\<lambda>p. fst p \<noteq> t) (pending b),
                      textures := (textures b)[t := (textures b ! t)\<lparr>tex_image := True\<rparr>]\<rparr>
           in case cb of
                NoOnLoad \<Rightarrow> s\<lparr>sys_browser := b1\<rparr>
              | PreviewOnLoad \<Rightarrow>
                  s\<lparr>sys_browser :=
                      b1\<lparr>textures :=
                           (textures b1)[t := (textures b1 ! t)\<lparr>tex_minFilter := LinearFilter\<rparr>]\<rparr>,
                    sys_box := map_option (\<lambda>bx. bx\<lparr>texture_current := Some t\<rparr>) (sys_box s)\<rparr>))"

text \<open>The decode fails: the error callback \<^verbatim>\<open>() => {}\<close> (line 29) does nothing.\<close>

definition texture_error :: "nat \<Rightarrow> system \<Rightarrow> system" where
  "texture_error t s =
     s\<lparr>sys_browser := (sys_browser s)\<lparr>pending := filter (\<lambda>p. fst p \<noteq> t) (pending (sys_browser s))\<rparr>\<rparr>"

datatype event =
    FileChange "js_file list"
  | ExtrusionChange real
  | SideColorChange string
  | BackModeChange string
  | DownloadClick
  | TextureLoaded nat
  | TextureError nat

text \<open>
  A state hook is set: React renders again when the new state differs from the old one.
\<close>

definition commit :: "app \<Rightarrow> system \<Rightarrow> system" where
  "commit a s = (if a = sys_app s then s else render (s\<lparr>sys_app := a\<rparr>))"

text \<open>
  One event. The download button is disabled while \<^verbatim>\<open>imageUrl\<close> is not set (line 157),
  so a click does nothing then.
\<close>

fun step :: "exporter \<Rightarrow> event \<Rightarrow> system \<Rightarrow> system" where
  "step ex (FileChange files) s =
     (let (a, b) = handleFile files (sys_app s, sys_browser s)
      in commit a (s\<lparr>sys_browser := b\<rparr>))"
| "step ex (ExtrusionChange x) s = commit ((sys_app s)\<lparr>extrusion := x\<rparr>) s"
| "step ex (SideColorChange c) s = commit ((sys_app s)\<lparr>sideColor := c\<rparr>) s"
| "step ex (BackModeChange m) s = commit ((sys_app s)\<lparr>backMode := m\<rparr>) s"
| "step ex DownloadClick s =
     (case imageUrl (sys_app s) of
        None \<Rightarrow> s
      | Some u \<Rightarrow> s\<lparr>sys_browser := handleDownload ex (sys_app s) (sys_browser s)\<rparr>)"
| "step ex (TextureLoaded t) s = texture_loaded t s"
| "step ex (TextureError t) s = texture_error t s"

definition run :: "exporter \<Rightarrow> event list \<Rightarrow> system \<Rightarrow> system" where
  "run ex es s = fold (step ex) es s"

text \<open>The state when the page has loaded (lines 68-71).\<close>

definition initial :: system where
  "initial =
     \<lparr>sys_app = \<lparr>imageUrl = None, extrusion = 0.2, sideColor = ''#2196f3'', backMode = ''image''\<rparr>,
      sys_box = None,
      sys_browser = \<lparr>object_urls = Map.empty, next_url = 0, textures = [], pending = [], downloads = []\<rparr>\<rparr>"

text \<open>
  The materials on the preview's mesh (line 61): the array the memo returned in the last
  render, which is the value the memo cell holds.
\<close>

definition mesh_materials :: "system \<Rightarrow> material list option" where
  "mesh_materials s =
     (case sys_box s of
        None \<Rightarrow> None
      | Some bx \<Rightarrow> map_option snd (memo bx))"

text \<open>
  The memo cell of a box is sound when the value it holds is the materials of the
  dependencies it holds.
\<close>

definition memo_ok :: "box \<Rightarrow> bool" where
  "memo_ok bx =
     (case memo bx of
        None \<Rightarrow> True
      | Some ((t, c, m), v) \<Rightarrow> v = materials t c m)"


section \<open>The binary container\<close>

text \<open>
  The serializer is \<^verbatim>\<open>GLTFExporter\<close> of three.js, which is not in the repository. The
  layout of the file it emits is taken from section 4.4 of the specification: a header of
  12 bytes (magic constant, version 2, total length of the file), then the metadata chunk
  (4 bytes of length, 4 bytes of type tag, the document padded with spaces to a multiple
  of 4 bytes), then the binary chunk (the same, padded with zero bytes).
\<close>








section \<open>Sample inputs\<close>

definition image1 :: js_file where
  "image1 = \<lparr>blob_bytes = [0x89, 0x50, 0x4E, 0x47], blob_type = ''image/png''\<rparr>"

definition image2 :: js_file where
  "image2 = \<lparr>blob_bytes = [0xFF, 0xD8, 0xFF], blob_type = ''image/jpeg''\<rparr>"

text \<open>An exporter that never calls back.\<close>

definition silent :: exporter where
  "silent sc ts = None"



section \<open>Auxiliary facts\<close>

lemmas ev_defs = run_def initial_def handleFile_def createObjectURL_def render_def commit_def
  TextureLoader_load_def texture_loaded_def texture_error_def Let_def image1_def image2_def
  load_map_def handleDownload_scene_def handleDownload_def MeshStandardMaterial_def
  mesh_materials_def materials_def box_useMemo_def useMemo_def

lemma scene_materials_eq:
  "scene_materials (fst (handleDownload_scene a b)) =
     [MeshStandardMaterial (Some (sideColor a)) None,
      MeshStandardMaterial (Some (sideColor a)) None,
      MeshStandardMaterial (Some (sideColor a)) None,
      MeshStandardMaterial (Some (sideColor a)) None,
      MeshStandardMaterial (Some ''#fff'') (fst (load_map (imageUrl a) b)),
      if backMode a = ''image''
      then MeshStandardMaterial (Some ''#fff'')
             (fst (load_map (imageUrl a) (snd (load_map (imageUrl a) b))))
      else MeshStandardMaterial (Some (sideColor a)) None]"
  by (simp add: handleDownload_scene_def Let_def split_def)


lemma load_map_Some:
  "load_map (Some u) b =
     (Some (length (textures b)),
      b\<lparr>textures := textures b @
           [\<lparr>tex_src = u, tex_image = False, tex_minFilter = LinearMipmapLinearFilter\<rparr>],
        pending := pending b @ [(length (textures b), NoOnLoad)]\<rparr>)"
  by (simp add: load_map_def TextureLoader_load_def)

subsection \<open>The container's length field\<close>










subsection \<open>Loads in flight\<close>

lemma map_of_filter_other:
  "y \<noteq> x \<Longrightarrow> map_of (filter (\<lambda>p. fst p \<noteq> x) ps) y = map_of ps y"
  by (induction ps) auto

lemma texture_loaded_preview:
  assumes "sys_box s = Some bx" and "map_of (pending (sys_browser s)) t = Some PreviewOnLoad"
  shows "sys_box (texture_loaded t s) = Some (bx\<lparr>texture_current := Some t\<rparr>)"
    and "pending (sys_browser (texture_loaded t s))
           = filter (\<lambda>p. fst p \<noteq> t) (pending (sys_browser s))"
  using assms by (simp_all add: texture_loaded_def Let_def)

subsection \<open>The store of object URLs only grows\<close>

lemma render_urls: "object_urls (sys_browser (render s)) = object_urls (sys_browser s)"
  by (simp add: render_def TextureLoader_load_def Let_def split: option.splits)

subsection \<open>The memo cell is sound in every state the program reaches\<close>



lemma memo_ok_effect: "memo_ok (bx\<lparr>effect_image := u\<rparr>) = memo_ok bx"
  by (simp add: memo_ok_def)








lemma commit_urls: "object_urls (sys_browser (commit a s)) = object_urls (sys_browser s)"
  by (simp add: commit_def render_urls)

lemma handleFile_urls: "dom (object_urls b) \<subseteq> dom (object_urls (snd (handleFile fs (a, b))))"
  by (auto simp add: handleFile_def createObjectURL_def split: list.splits)

lemma load_map_urls: "object_urls (snd (load_map iu b)) = object_urls b"
  by (simp add: load_map_def TextureLoader_load_def split: option.splits)

lemma scene_urls: "object_urls (snd (handleDownload_scene a b)) = object_urls b"
  by (simp add: handleDownload_scene_def Let_def split_def load_map_urls)

lemma onDone_urls: "dom (object_urls b) \<subseteq> dom (object_urls (onDone g b))"
  by (auto simp add: onDone_def createObjectURL_def Let_def)

lemma handleDownload_urls: "dom (object_urls b) \<subseteq> dom (object_urls (handleDownload ex a b))"
proof (cases "ex (fst (handleDownload_scene a b)) (textures (snd (handleDownload_scene a b)))")
  case None
  then show ?thesis by (simp add: handleDownload_def split_def scene_urls)
next
  case (Some g)
  have "dom (object_urls (snd (handleDownload_scene a b)))
          \<subseteq> dom (object_urls (onDone g (snd (handleDownload_scene a b))))"
    by (rule onDone_urls)
  with Some show ?thesis by (simp add: handleDownload_def split_def scene_urls)
qed

lemma texture_loaded_urls:
  "object_urls (sys_browser (texture_loaded t s)) = object_urls (sys_browser s)"
  by (simp add: texture_loaded_def Let_def split: option.splits on_load.splits)

lemma step_urls:
  "dom (object_urls (sys_browser s)) \<subseteq> dom (object_urls (sys_browser (step ex e s)))"
proof (cases e)
  case (FileChange fs)
  have "dom (object_urls (sys_browser s))
          \<subseteq> dom (object_urls (snd (handleFile fs (sys_app s, sys_browser s))))"
    by (rule handleFile_urls)
  with FileChange show ?thesis by (simp add: split_def Let_def commit_urls)
next
  case DownloadClick
  then show ?thesis
    using handleDownload_urls [of "sys_browser s" ex "sys_app s"]
    by (simp split: option.splits)
qed (simp_all add: commit_urls texture_loaded_urls texture_error_def)

lemma run_urls:
  "dom (object_urls (sys_browser s)) \<subseteq> dom (object_urls (sys_browser (run ex es s)))"
proof (induction es arbitrary: s)
  case Nil
  show ?case by (simp add: run_def)
next
  case (Cons e es)
  have "dom (object_urls (sys_browser s)) \<subseteq> dom (object_urls (sys_browser (step ex e s)))"
    by (rule step_urls)
  also have "\<dots> \<subseteq> dom (object_urls (sys_browser (run ex es (step ex e s))))"
    by (rule Cons.IH)
  finally show ?case by (simp add: run_def)
qed

section \<open>The claims\<close>

text \<open>
  In a list of six materials the indices 0 to 5 are the faces right, left, top, bottom,
  front and back.
\<close>

text \<open>
  C1. The claim: the export waits for an image decode in flight before it serializes, so
  that the textured materials of the serialized scene reference a loaded texture. The code
  does otherwise, for every export with an image: \<^verbatim>\<open>handleDownload\<close> starts a load of its
  own for the front face and hands the scene to the exporter in the same task. The map of
  the front material is the texture object just made, and at the moment the exporter gets
  the texture objects that one has no image and its load is still in flight.
\<close>

theorem export_front_texture_not_loaded:
  assumes "imageUrl a = Some u"
  shows "mat_map (scene_materials (fst (handleDownload_scene a b)) ! 4) = Some (length (textures b))
    \<and> length (textures b) < length (textures (snd (handleDownload_scene a b)))
    \<and> \<not> tex_image (textures (snd (handleDownload_scene a b)) ! length (textures b))
    \<and> (length (textures b), NoOnLoad) \<in> set (pending (snd (handleDownload_scene a b)))"
  using assms
  by (simp add: handleDownload_scene_def Let_def split_def load_map_Some MeshStandardMaterial_def
      nth_append)

text \<open>
  An image is uploaded and its preview texture 0 is decoded; then the export is asked for.
  The scene's front material references texture 1, which has no image.
\<close>

theorem export_front_texture_not_loaded_witness:
  "(let s = run silent [FileChange [image1], TextureLoaded 0] initial;
        r = handleDownload_scene (sys_app s) (sys_browser s)
    in imageUrl (sys_app s) = Some (ObjectURL 0)
       \<and> tex_image (textures (sys_browser s) ! 0)
       \<and> mat_map (scene_materials (fst r) ! 4) = Some 1
       \<and> \<not> tex_image (textures (snd r) ! 1)
       \<and> (1, NoOnLoad) \<in> set (pending (snd r)))"
proof -
  let ?s = "run silent [FileChange [image1], TextureLoaded 0] initial"
  have u: "imageUrl (sys_app ?s) = Some (ObjectURL 0)"
    by (simp add: ev_defs split_def)
  have n: "length (textures (sys_browser ?s)) = 1"
    by (simp add: ev_defs split_def)
  have l: "tex_image (textures (sys_browser ?s) ! 0)"
    by (simp add: ev_defs split_def)
  show ?thesis
    using export_front_texture_not_loaded [OF u, of "sys_browser ?s"] u l
    unfolding n by (simp add: Let_def)
qed




text \<open>
  C3. The claim: with \<^verbatim>\<open>backMode = "image"\<close> and a texture, back equals front, and the
  exported front and back reference one texture. An image is uploaded and decoded, and the
  depth is set to 0.3, which renders the preview again. On the preview's mesh front and
  back are then equal, both with texture 0. In the scene \<^verbatim>\<open>handleDownload\<close> builds in that
  state each of the two faces gets the result of a load of its own: front references
  texture 1 and back texture 2, and the two materials differ.
\<close>

theorem export_front_back_distinct_textures:
  "(let s = run silent [FileChange [image1], TextureLoaded 0, ExtrusionChange 0.3] initial;
        ms = scene_materials (fst (handleDownload_scene (sys_app s) (sys_browser s)))
    in backMode (sys_app s) = ''image''
       \<and> imageUrl (sys_app s) = Some (ObjectURL 0)
       \<and> mesh_materials s = Some (materials (Some 0) ''#2196f3'' ''image'')
       \<and> materials (Some 0) ''#2196f3'' ''image'' ! 4 = MeshStandardMaterial None (Some 0)
       \<and> materials (Some 0) ''#2196f3'' ''image'' ! 5 = MeshStandardMaterial None (Some 0)
       \<and> ms ! 4 = MeshStandardMaterial (Some ''#fff'') (Some 1)
       \<and> ms ! 5 = MeshStandardMaterial (Some ''#fff'') (Some 2)
       \<and> ms ! 4 \<noteq> ms ! 5)"
  by (simp add: ev_defs split_def)

text \<open>
  C4. With \<^verbatim>\<open>backMode = "color"\<close> the back material is the flat material of the side
  colour, equal to the material of the right face, in the preview and in the scene of the
  export.
\<close>

theorem back_color_is_side_material:
  "materials tc sc ''color'' ! 5 = MeshStandardMaterial (Some sc) None
   \<and> materials tc sc ''color'' ! 5 = materials tc sc ''color'' ! 0
   \<and> scene_materials (fst (handleDownload_scene (a\<lparr>backMode := ''color''\<rparr>) b)) ! 5
       = MeshStandardMaterial (Some (sideColor a)) None
   \<and> scene_materials (fst (handleDownload_scene (a\<lparr>backMode := ''color''\<rparr>) b)) ! 5
       = scene_materials (fst (handleDownload_scene (a\<lparr>backMode := ''color''\<rparr>) b)) ! 0"
  by (simp add: materials_def handleDownload_scene_def Let_def split_def)

text \<open>
  C5. The claim: six materials in the order right, left, top, bottom, front, back, none
  missing, and with no texture every one flat: white for front, side colour for the
  others. The function of the preview does so for every input. The scene of the export
  has its six materials in the same order, but whenever an image URL is set its front, and
  in image mode its back, map a texture made on the spot, whether or not a texture has
  been decoded. An image is uploaded and its decode fails, so that there is no texture and
  no load in flight, and the preview's mesh has the six flat materials; the scene built in
  that state has a front and a back that map the textures 1 and 2, with no image.
\<close>

theorem export_textured_without_texture:
  "length (materials tc sc bm) = 6
   \<and> materials tc sc bm =
       [MeshStandardMaterial (Some sc) None, MeshStandardMaterial (Some sc) None,
        MeshStandardMaterial (Some sc) None, MeshStandardMaterial (Some sc) None,
        if tc \<noteq> None then MeshStandardMaterial None tc
        else MeshStandardMaterial (Some ''#fff'') None,
        if bm = ''image'' \<and> tc \<noteq> None then MeshStandardMaterial None tc
        else MeshStandardMaterial (Some sc) None]
   \<and> scene_materials (fst (handleDownload_scene (a\<lparr>imageUrl := Some u\<rparr>) b)) =
       [MeshStandardMaterial (Some (sideColor a)) None,
        MeshStandardMaterial (Some (sideColor a)) None,
        MeshStandardMaterial (Some (sideColor a)) None,
        MeshStandardMaterial (Some (sideColor a)) None,
        MeshStandardMaterial (Some ''#fff'') (Some (length (textures b))),
        if backMode a = ''image''
        then MeshStandardMaterial (Some ''#fff'') (Some (Suc (length (textures b))))
        else MeshStandardMaterial (Some (sideColor a)) None]
   \<and> materials None sc bm =
       [MeshStandardMaterial (Some sc) None, MeshStandardMaterial (Some sc) None,
        MeshStandardMaterial (Some sc) None, MeshStandardMaterial (Some sc) None,
        MeshStandardMaterial (Some ''#fff'') None, MeshStandardMaterial (Some sc) None]
   \<and> (let s = run silent [FileChange [image1], TextureError 0] initial;
           r = handleDownload_scene (sys_app s) (sys_browser s)
       in imageUrl (sys_app s) = Some (ObjectURL 0)
          \<and> map_option texture_current (sys_box s) = Some None
          \<and> pending (sys_browser s) = []
          \<and> map tex_image (textures (sys_browser s)) = [False]
          \<and> mesh_materials s =
              Some [MeshStandardMaterial (Some ''#2196f3'') None,
                    MeshStandardMaterial (Some ''#2196f3'') None,
                    MeshStandardMaterial (Some ''#2196f3'') None,
                    MeshStandardMaterial (Some ''#2196f3'') None,
                    MeshStandardMaterial (Some ''#fff'') None,
                    MeshStandardMaterial (Some ''#2196f3'') None]
          \<and> scene_materials (fst r) =
              [MeshStandardMaterial (Some ''#2196f3'') None,
               MeshStandardMaterial (Some ''#2196f3'') None,
               MeshStandardMaterial (Some ''#2196f3'') None,
               MeshStandardMaterial (Some ''#2196f3'') None,
               MeshStandardMaterial (Some ''#fff'') (Some 1),
               MeshStandardMaterial (Some ''#fff'') (Some 2)]
          \<and> map tex_image (textures (snd r)) = [False, False, False])"
  by (simp add: ev_defs split_def)

text \<open>
  C6. The materials of right, left, top and bottom are equal to each other, in the preview
  and in the scene of the export; and with a texture, side colour \<^verbatim>\<open>#2196f3\<close> and back mode
  \<^verbatim>\<open>color\<close> (scenario B) the six materials are two distinct ones, in both.
\<close>

theorem side_materials_identical:
  "materials tc sc bm ! 0 = materials tc sc bm ! 1
   \<and> materials tc sc bm ! 1 = materials tc sc bm ! 2
   \<and> materials tc sc bm ! 2 = materials tc sc bm ! 3
   \<and> scene_materials (fst (handleDownload_scene a b)) ! 0
       = scene_materials (fst (handleDownload_scene a b)) ! 1
   \<and> scene_materials (fst (handleDownload_scene a b)) ! 1
       = scene_materials (fst (handleDownload_scene a b)) ! 2
   \<and> scene_materials (fst (handleDownload_scene a b)) ! 2
       = scene_materials (fst (handleDownload_scene a b)) ! 3
   \<and> card (set (materials (Some t) ''#2196f3'' ''color'')) = 2
   \<and> card (set (scene_materials (fst (handleDownload_scene
        \<lparr>imageUrl = Some u, extrusion = 0.3, sideColor = ''#2196f3'', backMode = ''color''\<rparr>
        b)))) = 2"
  by (simp add: scene_materials_eq materials_def Let_def MeshStandardMaterial_def load_map_def
      split_def card_insert_if)



text \<open>
  C8, as stated, fails. Two images are uploaded one after the other; the decode of the
  second completes first, then the decode of the first. The application's image is the
  second upload, and the active texture is texture 0, made from the first.
\<close>

theorem stale_load_overwrites_newer:
  "(let s = run silent [FileChange [image1], FileChange [image2], TextureLoaded 1, TextureLoaded 0]
              initial
    in imageUrl (sys_app s) = Some (ObjectURL 1)
       \<and> map_option texture_current (sys_box s) = Some (Some 0)
       \<and> tex_src (textures (sys_browser s) ! 0) = ObjectURL 0
       \<and> pending (sys_browser s) = [])"
  by (simp add: ev_defs split_def)

text \<open>
  C8, amended. No result is discarded: when two loads of the preview are in flight and
  both complete, the active texture is the one of the load that completed last, whichever
  was asked for first.
\<close>

theorem last_completed_load_wins:
  assumes "sys_box s = Some bx"
    and "map_of (pending (sys_browser s)) x = Some PreviewOnLoad"
    and "map_of (pending (sys_browser s)) y = Some PreviewOnLoad"
    and "x \<noteq> y"
  shows "map_option texture_current (sys_box (run ex [TextureLoaded x, TextureLoaded y] s))
           = Some (Some y)"
proof -
  let ?s1 = "texture_loaded x s"
  have box1: "sys_box ?s1 = Some (bx\<lparr>texture_current := Some x\<rparr>)"
    using assms(1,2) by (rule texture_loaded_preview(1))
  have "pending (sys_browser ?s1) = filter (\<lambda>p. fst p \<noteq> x) (pending (sys_browser s))"
    using assms(1,2) by (rule texture_loaded_preview(2))
  then have "map_of (pending (sys_browser ?s1)) y = Some PreviewOnLoad"
    using assms(3,4) by (simp add: map_of_filter_other)
  with box1 have "sys_box (texture_loaded y ?s1)
                    = Some (bx\<lparr>texture_current := Some x, texture_current := Some y\<rparr>)"
    by (rule texture_loaded_preview(1))
  then show ?thesis by (simp add: run_def)
qed

theorem last_completed_load_wins_witness:
  "map_option texture_current
     (sys_box (run silent [TextureLoaded 1, TextureLoaded 0]
                 (run silent [FileChange [image1], FileChange [image2]] initial))) = Some (Some 0)
   \<and> map_option texture_current
     (sys_box (run silent [TextureLoaded 0, TextureLoaded 1]
                 (run silent [FileChange [image1], FileChange [image2]] initial))) = Some (Some 1)"
proof -
  let ?s = "run silent [FileChange [image1], FileChange [image2]] initial"
  have bx: "sys_box ?s
              = Some \<lparr>texture_current = None, effect_image = Some (ObjectURL 1),
                      memo = Some ((None, ''#2196f3'', ''image''),
                                   materials None ''#2196f3'' ''image'')\<rparr>"
    by (simp add: ev_defs split_def)
  have p0: "map_of (pending (sys_browser ?s)) 0 = Some PreviewOnLoad"
    by (simp add: ev_defs split_def)
  have p1: "map_of (pending (sys_browser ?s)) 1 = Some PreviewOnLoad"
    by (simp add: ev_defs split_def)
  show ?thesis
    using last_completed_load_wins [OF bx p1 p0, of silent]
      last_completed_load_wins [OF bx p0 p1, of silent]
    by simp
qed

text \<open>
  C9, as stated, fails. After two uploads the object URL of the first image is still
  registered, next to the one of the second.
\<close>

theorem superseded_url_not_released:
  "(let s = run silent [FileChange [image1], FileChange [image2]] initial
    in imageUrl (sys_app s) = Some (ObjectURL 1)
       \<and> object_urls (sys_browser s) (ObjectURL 0) = Some image1
       \<and> object_urls (sys_browser s) (ObjectURL 1) = Some image2)"
  by (simp add: ev_defs split_def)

text \<open>
  C9, amended. An upload makes a new object URL, registers the file under it and makes it
  the one image URL of the application state. No event releases an object URL: every URL
  registered before a run of events is registered after it.
\<close>

theorem object_urls_never_released:
  "imageUrl (fst (handleFile (f # fs) (a, b))) = Some (ObjectURL (next_url b))
   \<and> object_urls (snd (handleFile (f # fs) (a, b)))
       = (object_urls b)(ObjectURL (next_url b) \<mapsto> f)
   \<and> dom (object_urls (sys_browser s)) \<subseteq> dom (object_urls (sys_browser (run ex es s)))"
  by (simp add: run_urls handleFile_def createObjectURL_def)

theorem object_urls_never_released_witness:
  "ObjectURL 0
     \<in> dom (object_urls (sys_browser
              (run silent [FileChange [image2], TextureLoaded 0, DownloadClick, FileChange [image1]]
                 (run silent [FileChange [image1]] initial))))"
proof -
  have "ObjectURL 0 \<in> dom (object_urls (sys_browser (run silent [FileChange [image1]] initial)))"
    by (simp add: ev_defs split_def)
  then show ?thesis
    using object_urls_never_released
            [of image1 "[]" "sys_app initial" "sys_browser initial"
                "run silent [FileChange [image1]] initial" silent
                "[FileChange [image2], TextureLoaded 0, DownloadClick, FileChange [image1]]"]
    by blast
qed

text \<open>
  C10. When the change event of the file input carries no file, \<^verbatim>\<open>handleFile\<close> returns
  the application state and the browser as they were, and the whole state of the program
  after the event is the state before it.
\<close>

theorem handleFile_no_file_unchanged:
  "handleFile [] (a, b) = (a, b) \<and> step ex (FileChange []) s = s"
  by (simp add: handleFile_def commit_def)

end
